theory Spec2Isabelle
  imports Complex_Main "HOL-Library.Sublist"
begin

section \<open>JavaScript values used by the adapters\<close>

text \<open>
  An optional string property (\<^verbatim>\<open>webhookUrl?: string\<close>) is a \<open>string option\<close>, with
  \<open>None\<close> for \<^verbatim>\<open>undefined\<close>. Characters are bytes: the line terminators U+2028 and
  U+2029 of JavaScript lie outside the character type and are not modelled.
\<close>

definition truthy :: "string option \<Rightarrow> bool" where
  \<comment> \<open>the truth value of \<^verbatim>\<open>v ? a : b\<close>, \<^verbatim>\<open>v || d\<close>, \<^verbatim>\<open>v && w\<close>: false on undefined and on the empty string\<close>
  "truthy v = (case v of None \<Rightarrow> False | Some s \<Rightarrow> s \<noteq> [])"

definition interp :: "string option \<Rightarrow> string" where
  \<comment> \<open>the text a template literal \<^verbatim>\<open>${v}\<close> inserts\<close>
  "interp v = (case v of None \<Rightarrow> ''undefined'' | Some s \<Rightarrow> s)"

definition digit_char :: "nat \<Rightarrow> char" where
  "digit_char d = char_of (of_char CHR ''0'' + d)"

fun string_of_nat :: "nat \<Rightarrow> string" where
  \<comment> \<open>the decimal text of a non-negative integer number, as \<^verbatim>\<open>${pullNumber}\<close> prints it
      (below \<open>10\<^sup>2\<^sup>1\<close>, from where JavaScript prints an exponent)\<close>
  "string_of_nat n =
     (let q = n div 10; last_digit = [digit_char (n mod 10)]
      in if q = 0 then last_digit else string_of_nat q @ last_digit)"

declare string_of_nat.simps [simp del]

fun contains :: "string \<Rightarrow> string \<Rightarrow> bool" where
  \<comment> \<open>\<open>contains s pat\<close>: the text \<open>pat\<close> occurs in \<open>s\<close>; a regular expression that is a plain
      literal, such as \<^verbatim>\<open>/Hook already exists/\<close>, matches exactly then\<close>
  "contains [] pat = (pat = [])"
| "contains (c # cs) pat = (prefix pat (c # cs) \<or> contains cs pat)"

fun replace_first :: "string \<Rightarrow> string \<Rightarrow> string \<Rightarrow> string" where
  \<comment> \<open>\<^verbatim>\<open>s.replace(pat, rep)\<close> with a string pattern: only the first occurrence is replaced\<close>
  "replace_first [] pat rep = (if pat = [] then rep else [])"
| "replace_first (c # cs) pat rep =
     (if prefix pat (c # cs) then rep @ drop (length pat) (c # cs)
      else c # replace_first cs pat rep)"

definition line_terminator :: "char \<Rightarrow> bool" where
  \<comment> \<open>the characters that \<^verbatim>\<open>.\<close> of a regular expression does not match\<close>
  "line_terminator c \<longleftrightarrow> c = CHR 0x0A \<or> c = CHR 0x0D"

section \<open>Configuration, errors, promises\<close>

text \<open>
  Modelled from the spec: \<^verbatim>\<open>TypedGitRepoConfig\<close> (\<^verbatim>\<open>git.model\<close>), with the fields the
  adapters read. \<open>host\<close> and \<open>branch\<close> may be absent.
\<close>

record TypedGitRepoConfig =
  owner :: string
  repo :: string
  protocol :: string
  host :: "string option"
  username :: string
  password :: string
  branch :: "string option"

record 'b Response =
  res_status :: nat
  res_text :: string
  res_header :: "(string \<times> string) list"
  res_body :: 'b

text \<open>
  The response an error carries. The transport reads the body of a response as text only
  when its content type is text, JSON or form data; for any other body
  \<^verbatim>\<open>err.response.text\<close> is \<^verbatim>\<open>undefined\<close>, here \<open>None\<close>.
\<close>

record ErrorResponse =
  eres_status :: nat
  eres_text :: "string option"
  eres_header :: "(string \<times> string) list"

text \<open>
  Modelled from the spec: the errors. \<^verbatim>\<open>ResponseError\<close> is the transport's error for an
  unsuccessful HTTP response, with the status and the response; \<^verbatim>\<open>WebhookAlreadyExists\<close>
  and \<^verbatim>\<open>UnknownWebhookError\<close> (\<^verbatim>\<open>git.api\<close>) are made from a message and the error that
  caused them.
\<close>

datatype error =
    ResponseError (message: string) (status: nat) (err_response: ErrorResponse)
  | Error (message: string)
  | TypeError (message: string)
  | WebhookAlreadyExists (message: string) (cause: error)
  | UnknownWebhookError (message: string) (cause: error)

text \<open>
  Modelled from the spec: \<^verbatim>\<open>isResponseError\<close> (\<^verbatim>\<open>util/superagent-support\<close>) is the type guard
  that tells the transport's response errors, which carry the HTTP status and the response,
  from every other error.
\<close>

fun isResponseError :: "error \<Rightarrow> bool" where
  "isResponseError (ResponseError m s r) = True"
| "isResponseError _ = False"

text \<open>
  A promise is modelled by how it settles. A call completes normally with a value or
  throws; an \<^verbatim>\<open>async\<close> function never throws, it returns a promise that is rejected.
\<close>

datatype 'a promise = Resolved 'a | Rejected error

datatype 'a completion = Normal 'a | Throw error

section \<open>Refs and unimplemented operations\<close>

text \<open>
  Modelled from the spec: the value types \<^verbatim>\<open>PullRequest\<close>, \<^verbatim>\<open>CreatePullRequestOptions\<close> and
  \<^verbatim>\<open>MergePullRequestOptions\<close> (\<^verbatim>\<open>git.api\<close>), with the fields the adapters read.
\<close>

record PullRequest =
  pullNumber :: nat
  sourceBranch :: string
  targetBranch :: string

record CreatePullRequestOptions =
  cpr_title :: string
  cpr_sourceBranch :: string
  cpr_targetBranch :: string
  cpr_maintainer_can_modify :: "bool option"
  cpr_draft :: "bool option"

record MergePullRequestOptions =
  mpr_pullNumber :: nat
  mpr_title :: string
  mpr_message :: string
  mpr_method :: string

definition github_getRef :: "TypedGitRepoConfig \<Rightarrow> string" where
  "github_getRef config = ''refs/heads/'' @ interp (branch config)"

definition gitlab_getRef :: "TypedGitRepoConfig \<Rightarrow> string" where
  "gitlab_getRef config = ''refs/heads/'' @ interp (branch config)"

definition bitbucket_getRef :: "TypedGitRepoConfig \<Rightarrow> string option" where
  "bitbucket_getRef config = branch config"

definition gitlab_getPullRequest :: "TypedGitRepoConfig \<Rightarrow> nat \<Rightarrow> 'w \<Rightarrow> PullRequest promise \<times> 'w" where
  "gitlab_getPullRequest config pullNum w =
     (Rejected (Error ''Method not implemented: getPullRequest''), w)"

definition gitlab_createPullRequest ::
  "TypedGitRepoConfig \<Rightarrow> CreatePullRequestOptions \<Rightarrow> 'w \<Rightarrow> PullRequest promise \<times> 'w" where
  "gitlab_createPullRequest config options w =
     (Rejected (Error ''Method not implemented: createPullRequest''), w)"

definition gitlab_mergePullRequest ::
  "TypedGitRepoConfig \<Rightarrow> MergePullRequestOptions \<Rightarrow> 'w \<Rightarrow> string promise \<times> 'w" where
  "gitlab_mergePullRequest config options w =
     (Rejected (Error ''Method not implemented: mergePullRequest''), w)"

definition gitlab_updatePullRequestBranch :: "TypedGitRepoConfig \<Rightarrow> nat \<Rightarrow> 'w \<Rightarrow> string promise \<times> 'w" where
  "gitlab_updatePullRequestBranch config pullNum w =
     (Rejected (Error ''Method not implemented: updatePullRequestBranch''), w)"

definition bitbucket_getPullRequest :: "TypedGitRepoConfig \<Rightarrow> nat \<Rightarrow> 'w \<Rightarrow> PullRequest promise \<times> 'w" where
  "bitbucket_getPullRequest config pullNum w =
     (Rejected (Error ''Method not implemented: getPullRequest''), w)"

definition bitbucket_createPullRequest ::
  "TypedGitRepoConfig \<Rightarrow> CreatePullRequestOptions \<Rightarrow> 'w \<Rightarrow> PullRequest promise \<times> 'w" where
  "bitbucket_createPullRequest config options w =
     (Rejected (Error ''Method not implemented: createPullRequest''), w)"

definition bitbucket_mergePullRequest ::
  "TypedGitRepoConfig \<Rightarrow> MergePullRequestOptions \<Rightarrow> 'w \<Rightarrow> string promise \<times> 'w" where
  "bitbucket_mergePullRequest config options w =
     (Rejected (Error ''Method not implemented: mergePullRequest''), w)"

definition bitbucket_updatePullRequestBranch :: "TypedGitRepoConfig \<Rightarrow> nat \<Rightarrow> 'w \<Rightarrow> string promise \<times> 'w" where
  "bitbucket_updatePullRequestBranch config pullNum w =
     (Rejected (Error ''Method not implemented: updatePullRequestBranch''), w)"

section \<open>The transport and the world an operation runs in\<close>

datatype json =
    JString string
  | JNumber nat
  | JBool bool
  | JUndefined
  | JObject "(string \<times> json) list"

datatype http_method = GET | POST | PUT

record 'd request =
  req_method :: http_method
  req_url :: "string option"
  req_auth :: "(string \<times> string) option"
  req_headers :: "(string \<times> string) list"
  req_accept :: "string option"
  req_data :: "'d option"

text \<open>
  \<^verbatim>\<open>logger.debug\<close> is called with the operation's name and, for a failure, the error,
  its classification and its status (absent on an error that has none).
\<close>

datatype log_entry =
    RateLimitWait string "real option"
  | ErrorCallingApi string error bool "nat option"

text \<open>
  The world of one operation: \<open>server w n r\<close> is what the transport gives for request
  \<open>r\<close> when it is the \<open>n\<close>-th request sent (a response, or the error the transport
  rejects with), \<open>sent\<close> the requests sent so far, \<open>random\<close> the values that
  \<^verbatim>\<open>Math.random()\<close> returns, \<open>sleeps\<close> the arguments \<^verbatim>\<open>timer\<close> was awaited with
  (\<open>None\<close> for \<^verbatim>\<open>NaN\<close>) and \<open>debug\<close> the debug log.
\<close>

record ('d, 'b) world =
  server :: "nat \<Rightarrow> 'd request \<Rightarrow> error + 'b Response"
  sent :: "'d request list"
  random :: "nat \<Rightarrow> real"
  drawn :: nat
  sleeps :: "real option list"
  debug :: "log_entry list"

definition send ::
  "'d request \<Rightarrow> ('d, 'b) world \<Rightarrow> (error + 'b Response) \<times> ('d, 'b) world" where
  "send r w = (server w (length (sent w)) r, w\<lparr>sent := sent w @ [r]\<rparr>)"

definition Math_random :: "('d, 'b) world \<Rightarrow> real \<times> ('d, 'b) world" where
  "Math_random w = (random w (drawn w), w\<lparr>drawn := Suc (drawn w)\<rparr>)"

text \<open>
  Modelled from the spec: \<^verbatim>\<open>timer\<close> (\<^verbatim>\<open>lib/timer\<close>) returns a promise that resolves
  after the given number of milliseconds; the model records the argument.
\<close>

definition timer :: "real option \<Rightarrow> ('d, 'b) world \<Rightarrow> ('d, 'b) world" where
  "timer time w = w\<lparr>sleeps := sleeps w @ [time]\<rparr>"

definition logger_debug :: "log_entry \<Rightarrow> ('d, 'b) world \<Rightarrow> ('d, 'b) world" where
  "logger_debug e w = w\<lparr>debug := debug w @ [e]\<rparr>"

section \<open>The GitHub-family adapter\<close>

datatype github_variant = Github | GithubEnterprise

fun github_getBaseUrl :: "github_variant \<Rightarrow> TypedGitRepoConfig \<Rightarrow> string" where
  "github_getBaseUrl Github config =
     ''https://api.github.com/repos/'' @ owner config @ ''/'' @ repo config"
| "github_getBaseUrl GithubEnterprise config =
     protocol config @ ''://'' @ interp (host config) @ ''/api/v3/repos/'' @ owner config
       @ ''/'' @ repo config"

definition github_request ::
  "http_method \<Rightarrow> TypedGitRepoConfig \<Rightarrow> string \<Rightarrow> 'd option \<Rightarrow> 'd request" where
  "github_request m config url d =
     \<lparr>req_method = m, req_url = Some url,
      req_auth = Some (username config, password config),
      req_headers = [(''User-Agent'', username config @ '' via ibm-garage-cloud cli'')],
      req_accept = Some ''application/vnd.github.v3+json'',
      req_data = d\<rparr>"

definition github_get ::
  "github_variant \<Rightarrow> TypedGitRepoConfig \<Rightarrow> string \<Rightarrow> ('d, 'b) world \<Rightarrow> (error + 'b Response) \<times> ('d, 'b) world" where
  "github_get v config uri w =
     (let url = (if prefix ''http'' uri then uri else github_getBaseUrl v config @ uri)
      in send (github_request GET config url None) w)"

definition github_post ::
  "github_variant \<Rightarrow> TypedGitRepoConfig \<Rightarrow> string \<Rightarrow> 'd \<Rightarrow> ('d, 'b) world
     \<Rightarrow> (error + 'b Response) \<times> ('d, 'b) world" where
  "github_post v config uri d w =
     send (github_request POST config (github_getBaseUrl v config @ uri) (Some d)) w"

definition github_put ::
  "github_variant \<Rightarrow> TypedGitRepoConfig \<Rightarrow> string \<Rightarrow> 'd \<Rightarrow> ('d, 'b) world
     \<Rightarrow> (error + 'b Response) \<times> ('d, 'b) world" where
  "github_put v config uri d w =
     send (github_request PUT config (github_getBaseUrl v config @ uri) (Some d)) w"

subsection \<open>The retry wrapper\<close>

text \<open>
  \<^verbatim>\<open>/.*secondary rate limit.*/g\<close>: \<^verbatim>\<open>.\<close> stays on one line, so the expression matches
  at a position when the rest of that line holds the literal, and the match then runs to
  the end of the line. The expression is global: \<^verbatim>\<open>test\<close> starts at \<open>lastIndex\<close>,
  leaves it at the end of the match, and resets it to 0 when nothing matches.
\<close>

definition rateLimit_match_here :: "string \<Rightarrow> nat option" where
  "rateLimit_match_here s =
     (let line = takeWhile (\<lambda>c. \<not> line_terminator c) s
      in if contains line ''secondary rate limit'' then Some (length line) else None)"

fun rateLimit_search :: "string \<Rightarrow> nat option" where
  "rateLimit_search [] = rateLimit_match_here []"
| "rateLimit_search (c # cs) =
     (case rateLimit_match_here (c # cs) of
        Some e \<Rightarrow> Some e
      | None \<Rightarrow> map_option Suc (rateLimit_search cs))"

definition rateLimitRegex_test :: "nat \<Rightarrow> string \<Rightarrow> bool \<times> nat" where
  "rateLimitRegex_test lastIndex s =
     (if length s < lastIndex then (False, 0)
      else case rateLimit_search (drop lastIndex s) of
             Some e \<Rightarrow> (True, lastIndex + e)
           | None \<Rightarrow> (False, 0))"

fun digits_value :: "string \<Rightarrow> nat \<Rightarrow> nat option" where
  "digits_value [] acc = Some acc"
| "digits_value (c # cs) acc =
     (let d = (of_char c :: nat)
      in if 48 \<le> d \<and> d \<le> 57 then digits_value cs (10 * acc + (d - 48)) else None)"

definition to_number :: "string \<Rightarrow> real option" where
  \<comment> \<open>the number a header value is coerced to by \<^verbatim>\<open>*\<close>: the seconds form of
      \<^verbatim>\<open>Retry-After\<close> is a run of digits; the date form is not a number (\<open>None\<close>).
      The other numeric forms of JavaScript (sign, fraction, exponent, hexadecimal, blanks
      around) are not read: no header of the protocol has them\<close>
  "to_number s = (if s = [] then Some 0 else map_option real (digits_value s 0))"

definition retry_time :: "(string \<times> string) list \<Rightarrow> real \<Rightarrow> real option" where
  \<comment> \<open>\<^verbatim>\<open>(header['Retry-After'] || 30) * 1000 + (1000 * Math.random())\<close>\<close>
  "retry_time hdr r =
     (let retryAfter = (if truthy (map_of hdr ''Retry-After'')
                        then to_number (the (map_of hdr ''Retry-After'')) else Some 30)
      in map_option (\<lambda>n. n * 1000 + 1000 * r) retryAfter)"

text \<open>
  The body of the \<^verbatim>\<open>catch\<close> block of \<^verbatim>\<open>exec\<close>: either the loop goes round again,
  after the wait and with the expression's new \<open>lastIndex\<close>, or the error is thrown.
\<close>

datatype ('d, 'b) caught = Retry nat "('d, 'b) world" | Rethrow error "('d, 'b) world"

definition exec_catch :: "string \<Rightarrow> nat \<Rightarrow> error \<Rightarrow> ('d, 'b) world \<Rightarrow> ('d, 'b) caught" where
  "exec_catch name lastIndex err w =
     (if isResponseError err \<and> status err = 403
      then (let (matched, lastIndex') = rateLimitRegex_test lastIndex (message err)
            in if matched
               then (let (r, w1) = Math_random w;
                         time = retry_time (eres_header (err_response err)) r;
                         w2 = logger_debug (RateLimitWait name time) w1
                     in Retry lastIndex' (timer time w2))
               else Rethrow err
                      (logger_debug (ErrorCallingApi name err (isResponseError err)
                         (Some (status err))) w))
      else Rethrow err
             (logger_debug (ErrorCallingApi name err (isResponseError err)
                (if isResponseError err then Some (status err) else None)) w))"

text \<open>
  The loop of \<^verbatim>\<open>exec\<close>. \<^verbatim>\<open>return f()\<close> hands the promise of \<open>f\<close> back as it is, so
  \<^verbatim>\<open>catch\<close> sees only what the call \<open>f()\<close> itself throws. \<open>None\<close> is a loop that
  never ends.
\<close>

partial_function (option) exec_loop ::
  "(('d, 'b) world \<Rightarrow> 'a promise completion \<times> ('d, 'b) world) \<Rightarrow> string \<Rightarrow> nat \<Rightarrow> ('d, 'b) world
     \<Rightarrow> ('a promise \<times> ('d, 'b) world) option" where
  "exec_loop f name lastIndex w =
     (case f w of
        (Normal p, w1) \<Rightarrow> Some (p, w1)
      | (Throw err, w1) \<Rightarrow>
          (case exec_catch name lastIndex err w1 of
             Retry lastIndex' w2 \<Rightarrow> exec_loop f name lastIndex' w2
           | Rethrow e w2 \<Rightarrow> Some (Rejected e, w2)))"

definition exec ::
  "(('d, 'b) world \<Rightarrow> 'a promise completion \<times> ('d, 'b) world) \<Rightarrow> string \<Rightarrow> ('d, 'b) world
     \<Rightarrow> ('a promise \<times> ('d, 'b) world) option" where
  "exec f name w = exec_loop f name 0 w"

definition async :: "('w \<Rightarrow> 'a promise \<times> 'w) \<Rightarrow> 'w \<Rightarrow> 'a promise completion \<times> 'w" where
  \<comment> \<open>calling an \<^verbatim>\<open>async\<close> function: the call returns the promise of the body\<close>
  "async body w = (case body w of (p, w') \<Rightarrow> (Normal p, w'))"

subsection \<open>Pull requests\<close>

text \<open>
  The parts of a response body the pull-request operations read: \<^verbatim>\<open>body.number\<close>,
  \<^verbatim>\<open>body.head.ref\<close>, \<^verbatim>\<open>body.base.ref\<close> and \<^verbatim>\<open>body.message\<close>.
\<close>

record PullBody =
  body_number :: nat
  body_head_ref :: string
  body_base_ref :: string

record MessageBody =
  body_message :: string

definition github_getPullRequest ::
  "github_variant \<Rightarrow> TypedGitRepoConfig \<Rightarrow> nat \<Rightarrow> (json, PullBody) world
     \<Rightarrow> (PullRequest promise \<times> (json, PullBody) world) option" where
  "github_getPullRequest v config pullNum w =
     (let f = async (\<lambda>w.
            case github_get v config (''/pulls/'' @ string_of_nat pullNum) w of
              (Inl err, w') \<Rightarrow> (Rejected err, w')
            | (Inr response, w') \<Rightarrow>
                (Resolved \<lparr>pullNumber = body_number (res_body response),
                           sourceBranch = body_head_ref (res_body response),
                           targetBranch = body_base_ref (res_body response)\<rparr>, w'))
      in exec f ''getPullRequest'' w)"

definition github_createPullRequest ::
  "github_variant \<Rightarrow> TypedGitRepoConfig \<Rightarrow> CreatePullRequestOptions \<Rightarrow> (json, PullBody) world
     \<Rightarrow> (PullRequest promise \<times> (json, PullBody) world) option" where
  "github_createPullRequest v config options w =
     (let f = async (\<lambda>w.
            case github_post v config ''/pulls''
                   (JObject
                     [(''title'', JString (cpr_title options)),
                      (''head'', JString (cpr_sourceBranch options)),
                      (''base'', JString (cpr_targetBranch options)),
                      (''maintainer_can_modify'',
                         (case cpr_maintainer_can_modify options of
                            None \<Rightarrow> JUndefined | Some b \<Rightarrow> JBool b)),
                      (''draft'', JBool (cpr_draft options = Some True))]) w of
              (Inl err, w') \<Rightarrow> (Rejected err, w')
            | (Inr response, w') \<Rightarrow>
                (Resolved \<lparr>pullNumber = body_number (res_body response),
                           sourceBranch = cpr_sourceBranch options,
                           targetBranch = cpr_targetBranch options\<rparr>, w'))
      in exec f ''createPullRequest'' w)"

definition github_mergePullRequest ::
  "github_variant \<Rightarrow> TypedGitRepoConfig \<Rightarrow> MergePullRequestOptions \<Rightarrow> (json, MessageBody) world
     \<Rightarrow> (string promise \<times> (json, MessageBody) world) option" where
  "github_mergePullRequest v config options w =
     (let f = async (\<lambda>w.
            case github_put v config
                   (''/pulls/'' @ string_of_nat (mpr_pullNumber options) @ ''/merge'')
                   (JObject
                     [(''commit_title'', JString (mpr_title options)),
                      (''commit_message'', JString (mpr_message options)),
                      (''merge_method'', JString (mpr_method options))]) w of
              (Inl err, w') \<Rightarrow> (Rejected err, w')
            | (Inr response, w') \<Rightarrow> (Resolved (body_message (res_body response)), w'))
      in exec f ''mergePullRequest'' w)"

definition github_updatePullRequestBranch ::
  "github_variant \<Rightarrow> TypedGitRepoConfig \<Rightarrow> nat \<Rightarrow> (json, MessageBody) world
     \<Rightarrow> (string promise \<times> (json, MessageBody) world) option" where
  "github_updatePullRequestBranch v config pullNum w =
     (let f = async (\<lambda>w.
            case github_put v config
                   (''/pulls/'' @ string_of_nat pullNum @ ''/update-branch'') (JObject []) w of
              (Inl err, w') \<Rightarrow> (Rejected err, w')
            | (Inr response, w') \<Rightarrow> (Resolved (body_message (res_body response)), w'))
      in exec f ''updatePullRequestBranch'' w)"

subsection \<open>Files\<close>

record Tree =
  tree_path :: string
  tree_mode :: string
  tree_type :: string
  tree_size :: "nat option"
  tree_sha :: string
  tree_url :: string

record TreeResponse =
  tr_sha :: string
  tr_url :: string
  tr_tree :: "Tree list"
  tr_truncated :: "bool option"

text \<open>\<^verbatim>\<open>encoding: 'base64'\<close>: the interfaces declare no other encoding.\<close>

datatype file_encoding = base64

record FileResponse =
  fr_content :: string
  fr_encoding :: file_encoding

record FileDescriptor =
  fd_path :: string
  fd_url :: "string option"

text \<open>What \<^verbatim>\<open>getFileContents\<close> returns, \<^verbatim>\<open>string | Buffer\<close>; a buffer is its bytes.\<close>

datatype file_contents = Buffer string | Text string

text \<open>
  \<^verbatim>\<open>new Buffer(content, 'base64')\<close> is the platform's decoder: it reads the standard and
  the URL-safe alphabet, skips every other character (the line breaks a vendor inserts),
  stops at the first \<^verbatim>\<open>=\<close>, and turns each four sextets into three bytes, a last
  group of three into two bytes and of two into one byte.
\<close>

definition unbase64 :: "char \<Rightarrow> nat option" where
  "unbase64 c =
     (let n = (of_char c :: nat)
      in if 65 \<le> n \<and> n \<le> 90 then Some (n - 65)
         else if 97 \<le> n \<and> n \<le> 122 then Some (n - 71)
         else if 48 \<le> n \<and> n \<le> 57 then Some (n + 4)
         else if c = CHR ''+'' \<or> c = CHR ''-'' then Some 62
         else if c = CHR ''/'' \<or> c = CHR ''_'' then Some 63
         else None)"

fun sextets :: "string \<Rightarrow> nat list" where
  "sextets [] = []"
| "sextets (c # cs) =
     (if c = CHR ''='' then []
      else case unbase64 c of None \<Rightarrow> sextets cs | Some v \<Rightarrow> v # sextets cs)"

fun decode_groups :: "nat list \<Rightarrow> nat list" where
  "decode_groups (a # b # c # d # rest) =
     (a * 4 + b div 16) # ((b mod 16) * 16 + c div 4) # ((c mod 4) * 64 + d) # decode_groups rest"
| "decode_groups [a, b, c] = [a * 4 + b div 16, (b mod 16) * 16 + c div 4]"
| "decode_groups [a, b] = [a * 4 + b div 16]"
| "decode_groups [a] = []"
| "decode_groups [] = []"

definition base64_decode :: "string \<Rightarrow> string" where
  "base64_decode s = map char_of (decode_groups (sextets s))"

fun new_Buffer :: "string \<Rightarrow> file_encoding \<Rightarrow> file_contents" where
  "new_Buffer content base64 = Buffer (base64_decode content)"

definition github_listFiles ::
  "github_variant \<Rightarrow> TypedGitRepoConfig \<Rightarrow> ('d, TreeResponse) world
     \<Rightarrow> Tree list promise \<times> ('d, TreeResponse) world" where
  "github_listFiles v config w =
     (case github_get v config (''/git/trees/'' @ interp (branch config)) w of
        (Inl err, w') \<Rightarrow> (Rejected err, w')
      | (Inr response, w') \<Rightarrow>
          (Resolved (filter (\<lambda>tree. tree_type tree = ''blob'') (tr_tree (res_body response))), w'))"

definition github_getFileContents ::
  "github_variant \<Rightarrow> TypedGitRepoConfig \<Rightarrow> FileDescriptor \<Rightarrow> ('d, FileResponse) world
     \<Rightarrow> file_contents promise \<times> ('d, FileResponse) world" where
  "github_getFileContents v config fileDescriptor w =
     (case github_get v config
             (if truthy (fd_url fileDescriptor) then the (fd_url fileDescriptor)
              else ''/contents/'' @ fd_path fileDescriptor) w of
        (Inl err, w') \<Rightarrow> (Rejected err, w')
      | (Inr response, w') \<Rightarrow>
          (Resolved (new_Buffer (fr_content (res_body response)) (fr_encoding (res_body response))),
           w'))"

subsection \<open>Webhooks\<close>

text \<open>
  Modelled from the spec: the options \<^verbatim>\<open>CreateWebhook\<close> (\<^verbatim>\<open>git.api\<close>), every one of them
  optional.
\<close>

record CreateWebhook =
  webhookUrl :: "string option"
  jenkinsUrl :: "string option"
  jenkinsUser :: "string option"
  jenkinsPassword :: "string option"
  jobName :: "string option"

datatype GithubEvent = GithubEvent_push | GithubEvent_pullRequest

fun GithubEvent_value :: "GithubEvent \<Rightarrow> string" where
  "GithubEvent_value GithubEvent_push = ''push''"
| "GithubEvent_value GithubEvent_pullRequest = ''pull_request''"

datatype GitHookUrlVerification = performed | notPerformed

fun GitHookUrlVerification_value :: "GitHookUrlVerification \<Rightarrow> string" where
  "GitHookUrlVerification_value performed = ''0''"
| "GitHookUrlVerification_value notPerformed = ''1''"

text \<open>
  Modelled from the spec: \<^verbatim>\<open>GitHookConfig\<close> and \<^verbatim>\<open>GitHookContentType\<close> are declared in
  \<^verbatim>\<open>git.model\<close>; the adapter fills the three fields below and uses the member
  \<^verbatim>\<open>json\<close> of the content types.
\<close>

datatype GitHookContentType = GitHookContentType_json

record GitHookConfig =
  hc_url :: string
  hc_content_type :: GitHookContentType
  hc_insecure_ssl :: GitHookUrlVerification

record GitHookData =
  hook_name :: string
  hook_active :: bool
  hook_events :: "GithubEvent list"
  hook_config :: GitHookConfig

record HookBody =
  body_id :: string

definition github_buildWebhookData :: "CreateWebhook \<Rightarrow> GitHookData" where
  "github_buildWebhookData options =
     (let url = (if truthy (webhookUrl options) then the (webhookUrl options)
                 else interp (jenkinsUrl options) @ ''/github-webhook/'');
          config = \<lparr>hc_url = url, hc_content_type = GitHookContentType_json,
                    hc_insecure_ssl = performed\<rparr>;
          pushGitHook = \<lparr>hook_name = ''web'', hook_active = True,
                         hook_events = [GithubEvent_push], hook_config = config\<rparr>
      in pushGitHook)"

text \<open>
  The \<^verbatim>\<open>catch\<close> block of \<^verbatim>\<open>createWebhook\<close> calls \<^verbatim>\<open>err.response.text.match\<close> with no check
  that the text is there; on \<^verbatim>\<open>undefined\<close> the call throws a \<^verbatim>\<open>TypeError\<close> (the message is
  the engine's), which leaves the block as the rejection of \<^verbatim>\<open>createWebhook\<close>.
\<close>

definition match_of_undefined :: string where
  "match_of_undefined =
     ''Cannot read properties of undefined (reading '' @ [CHR 0x27] @ ''match'' @ [CHR 0x27] @ '')''"

definition github_createWebhook ::
  "github_variant \<Rightarrow> TypedGitRepoConfig \<Rightarrow> CreateWebhook \<Rightarrow> (GitHookData, HookBody) world
     \<Rightarrow> string promise \<times> (GitHookData, HookBody) world" where
  "github_createWebhook v config options w =
     (case github_post v config ''/hooks'' (github_buildWebhookData options) w of
        (Inr response, w') \<Rightarrow> (Resolved (body_id (res_body response)), w')
      | (Inl err, w') \<Rightarrow>
          (if isResponseError err
           then (case eres_text (err_response err) of
                   None \<Rightarrow> (Rejected (TypeError match_of_undefined), w')
                 | Some body_text \<Rightarrow>
                     (if contains body_text ''Hook already exists''
                      then (Rejected (WebhookAlreadyExists ''Webhook already exists on repository'' err), w')
                      else (Rejected (UnknownWebhookError ''Unknown error creating webhook'' err), w')))
           else (Rejected (UnknownWebhookError (message err) err), w')))"

section \<open>The GitLab adapter\<close>

fun join :: "string \<Rightarrow> string list \<Rightarrow> string" where
  \<comment> \<open>\<^verbatim>\<open>values.join(sep)\<close>\<close>
  "join sep [] = []"
| "join sep [x] = x"
| "join sep (x # y # ys) = x @ sep @ join sep (y # ys)"

definition gitlab_getBaseUrl :: "TypedGitRepoConfig \<Rightarrow> string" where
  "gitlab_getBaseUrl config =
     protocol config @ ''://'' @ interp (host config) @ ''/api/v4/projects/'' @ owner config
       @ ''%2F'' @ repo config"

definition gitlab_request ::
  "http_method \<Rightarrow> TypedGitRepoConfig \<Rightarrow> string option \<Rightarrow> 'd option \<Rightarrow> 'd request" where
  "gitlab_request m config url d =
     \<lparr>req_method = m, req_url = url, req_auth = None,
      req_headers = [(''Private-Token'', password config),
                     (''User-Agent'', username config @ '' via ibm-garage-cloud cli'')],
      req_accept = Some ''application/json'',
      req_data = d\<rparr>"

definition gitlab_buildUrl :: "string \<Rightarrow> string list \<Rightarrow> string" where
  "gitlab_buildUrl url params =
     (let paramString = join ''&'' (filter (\<lambda>p. p \<noteq> []) params);
          values = [url] @ (if paramString \<noteq> [] then [paramString] else [])
      in join ''?'' values)"

definition gitlab_branchParam :: "TypedGitRepoConfig \<Rightarrow> string" where
  "gitlab_branchParam config =
     (if truthy (branch config) then ''ref='' @ the (branch config) else [])"

text \<open>The fields of a tree entry that \<^verbatim>\<open>listFiles\<close> reads.\<close>

record GitlabTree =
  gt_type :: string
  gt_path :: string

definition gitlab_listFiles ::
  "TypedGitRepoConfig \<Rightarrow> ('d, GitlabTree list) world
     \<Rightarrow> FileDescriptor list promise \<times> ('d, GitlabTree list) world" where
  "gitlab_listFiles config w =
     (case send (gitlab_request GET config
                   (Some (gitlab_buildUrl (gitlab_getBaseUrl config @ ''/repository/tree'')
                            [gitlab_branchParam config, ''per_page=1000''])) None) w of
        (Inl err, w') \<Rightarrow> (Rejected err, w')
      | (Inr response, w') \<Rightarrow>
          (Resolved
             (map (\<lambda>tree. \<lparr>fd_path = replace_first (gt_path tree) ''files/'' [],
                           fd_url = Some (gitlab_getBaseUrl config @ ''/repository/'' @ gt_path tree)\<rparr>)
                (filter (\<lambda>tree. gt_type tree = ''blob'') (res_body response))), w'))"

definition gitlab_getFileContents ::
  "TypedGitRepoConfig \<Rightarrow> FileDescriptor \<Rightarrow> ('d, FileResponse) world
     \<Rightarrow> file_contents promise \<times> ('d, FileResponse) world" where
  "gitlab_getFileContents config fileDescriptor w =
     (case send (gitlab_request GET config (fd_url fileDescriptor) None) w of
        (Inl err, w') \<Rightarrow> (Rejected err, w')
      | (Inr response, w') \<Rightarrow>
          (Resolved (new_Buffer (fr_content (res_body response)) (fr_encoding (res_body response))),
           w'))"

text \<open>
  \<^verbatim>\<open>/(.*):\/\/(.*)\/*/.exec(jenkinsUrl)\<close>: the first group is greedy and stays on one
  line, so at a position the expression matches when the rest of the line holds
  \<^verbatim>\<open>://\<close>, the first group runs to its last occurrence there and the second group takes
  the rest of the line, trailing slashes included (nothing is left for \<^verbatim>\<open>\/*\<close>).
  \<^verbatim>\<open>exec\<close> returns the match at the leftmost position that has one, and
  \<^verbatim>\<open>null\<close> when none has.
\<close>

fun split_last :: "string \<Rightarrow> string \<Rightarrow> (string \<times> string) option" where
  \<comment> \<open>the text before and after the last occurrence of \<open>pat\<close>\<close>
  "split_last [] pat = (if pat = [] then Some ([], []) else None)"
| "split_last (c # cs) pat =
     (case split_last cs pat of
        Some (a, b) \<Rightarrow> Some (c # a, b)
      | None \<Rightarrow> if prefix pat (c # cs) then Some ([], drop (length pat) (c # cs)) else None)"

definition urlParts_here :: "string \<Rightarrow> (string \<times> string) option" where
  "urlParts_here s = split_last (takeWhile (\<lambda>c. \<not> line_terminator c) s) ''://''"

fun urlParts_exec :: "string \<Rightarrow> (string \<times> string) option" where
  "urlParts_exec [] = urlParts_here []"
| "urlParts_exec (c # cs) =
     (case urlParts_here (c # cs) of Some r \<Rightarrow> Some r | None \<Rightarrow> urlParts_exec cs)"

declare urlParts_exec.simps [simp del]

record GitlabHookData =
  gl_id :: string
  gl_url :: string
  gl_push_events :: "bool option"
  gl_enable_ssl_verification :: "bool option"
  gl_token :: "string option"

text \<open>
  The parameter is the object \<^verbatim>\<open>Object.assign({}, this.config, options)\<close>; of it the
  function reads the properties of the options only. \<^verbatim>\<open>urlParts[1]\<close> on \<^verbatim>\<open>null\<close>
  throws a \<^verbatim>\<open>TypeError\<close> (the message is the engine's).
\<close>

definition gitlab_buildWebhookData :: "TypedGitRepoConfig \<Rightarrow> CreateWebhook \<Rightarrow> error + GitlabHookData" where
  "gitlab_buildWebhookData config params =
     (let jenkinsUrl' = (case jenkinsUrl params of None \<Rightarrow> ''https://jenkins.local/'' | Some u \<Rightarrow> u)
      in case urlParts_exec jenkinsUrl' of
           None \<Rightarrow> Inl (TypeError (''Cannot read properties of null (reading '' @ [CHR 0x27]
                         @ ''1'' @ [CHR 0x27] @ '')''))
         | Some (protocol', host') \<Rightarrow>
             (let credentials =
                    (if truthy (jenkinsUser params) \<and> truthy (jenkinsPassword params)
                     then interp (jenkinsUser params) @ '':'' @ interp (jenkinsPassword params) @ ''@''
                     else []);
                  url = (if truthy (webhookUrl params) then the (webhookUrl params)
                         else protocol' @ ''://'' @ credentials @ host' @ ''/project/''
                                @ interp (jobName params))
              in Inr \<lparr>gl_id = owner config @ ''%2F'' @ repo config,
                      gl_url = url,
                      gl_push_events = Some True,
                      gl_enable_ssl_verification = Some (protocol' = ''https''),
                      gl_token = None\<rparr>))"

definition gitlab_createWebhook ::
  "TypedGitRepoConfig \<Rightarrow> CreateWebhook \<Rightarrow> (GitlabHookData, HookBody) world
     \<Rightarrow> string promise \<times> (GitlabHookData, HookBody) world" where
  "gitlab_createWebhook config options w =
     (case (case gitlab_buildWebhookData config options of
              Inl err \<Rightarrow> (Inl err, w)
            | Inr d \<Rightarrow>
                send (gitlab_request POST config (Some (gitlab_getBaseUrl config @ ''/hooks''))
                        (Some d)) w) of
        (Inr response, w') \<Rightarrow> (Resolved (body_id (res_body response)), w')
      | (Inl err, w') \<Rightarrow>
          (if isResponseError err
           then (case eres_text (err_response err) of
                   None \<Rightarrow> (Rejected (TypeError match_of_undefined), w')
                 | Some body_text \<Rightarrow>
                     (if contains body_text ''Hook already exists''
                      then (Rejected (WebhookAlreadyExists ''Webhook already exists on repository'' err), w')
                      else (Rejected (UnknownWebhookError ''Unknown error creating webhook'' err), w')))
           else (Rejected (UnknownWebhookError (message err) err), w')))"

section \<open>The Bitbucket adapter\<close>

definition bitbucket_getBaseUrl :: "TypedGitRepoConfig \<Rightarrow> string" where
  "bitbucket_getBaseUrl config =
     protocol config @ ''://api.bitbucket.org/2.0/repositories/'' @ owner config @ ''/''
       @ repo config"

definition bitbucket_request ::
  "http_method \<Rightarrow> TypedGitRepoConfig \<Rightarrow> string option \<Rightarrow> string option \<Rightarrow> 'd option
     \<Rightarrow> 'd request" where
  "bitbucket_request m config url acc d =
     \<lparr>req_method = m, req_url = url,
      req_auth = Some (username config, password config),
      req_headers = [(''User-Agent'', username config @ '' via ibm-garage-cloud cli'')],
      req_accept = acc,
      req_data = d\<rparr>"

datatype BitbucketEvent = BitbucketEvent_push

fun BitbucketEvent_value :: "BitbucketEvent \<Rightarrow> string" where
  "BitbucketEvent_value BitbucketEvent_push = ''repo:push''"

record BitbucketHookData =
  bb_description :: string
  bb_url :: "string option"
  bb_active :: bool
  bb_events :: "BitbucketEvent list"

text \<open>
  The fields of a source entry that \<^verbatim>\<open>listFiles\<close> reads (\<open>te_href\<close> is
  \<^verbatim>\<open>links.self.href\<close>), and the entries of the page.
\<close>

record TreeEntry =
  te_path :: string
  te_type :: string
  te_href :: string

record SrcResponse =
  sr_values :: "TreeEntry list"

definition bitbucket_listFiles ::
  "TypedGitRepoConfig \<Rightarrow> ('d, SrcResponse) world
     \<Rightarrow> FileDescriptor list promise \<times> ('d, SrcResponse) world" where
  "bitbucket_listFiles config w =
     (case send (bitbucket_request GET config
                   (Some (bitbucket_getBaseUrl config @ ''/src?pagelen=100''))
                   (Some ''application/json'') None) w of
        (Inl err, w') \<Rightarrow> (Rejected err, w')
      | (Inr response, w') \<Rightarrow>
          (Resolved
             (map (\<lambda>s. \<lparr>fd_path = te_path s, fd_url = Some (te_href s)\<rparr>)
                (filter (\<lambda>s. te_type s = ''commit_file'') (sr_values (res_body response)))), w'))"

definition bitbucket_getFileContents ::
  "TypedGitRepoConfig \<Rightarrow> FileDescriptor \<Rightarrow> ('d, 'b) world
     \<Rightarrow> file_contents promise \<times> ('d, 'b) world" where
  "bitbucket_getFileContents config fileDescriptor w =
     (case send (bitbucket_request GET config (fd_url fileDescriptor) None None) w of
        (Inl err, w') \<Rightarrow> (Rejected err, w')
      | (Inr response, w') \<Rightarrow> (Resolved (Text (res_text response)), w'))"

definition bitbucket_buildWebhookData :: "CreateWebhook \<Rightarrow> BitbucketHookData" where
  "bitbucket_buildWebhookData options =
     \<lparr>bb_description = ''Webhook'', bb_url = webhookUrl options, bb_active = True,
      bb_events = [BitbucketEvent_push]\<rparr>"

definition bitbucket_createWebhook ::
  "TypedGitRepoConfig \<Rightarrow> CreateWebhook \<Rightarrow> (BitbucketHookData, HookBody) world
     \<Rightarrow> string promise \<times> (BitbucketHookData, HookBody) world" where
  "bitbucket_createWebhook config options w =
     (case send (bitbucket_request POST config (Some (bitbucket_getBaseUrl config @ ''/hooks''))
                   (Some ''application/json'') (Some (bitbucket_buildWebhookData options))) w of
        (Inr response, w') \<Rightarrow> (Resolved (body_id (res_body response)), w')
      | (Inl err, w') \<Rightarrow>
          (if isResponseError err
           then (case eres_text (err_response err) of
                   None \<Rightarrow> (Rejected (TypeError match_of_undefined), w')
                 | Some body_text \<Rightarrow>
                     (if contains body_text ''Hook already exists''
                      then (Rejected (WebhookAlreadyExists ''Webhook already exists on repository'' err), w')
                      else (Rejected (UnknownWebhookError ''Unknown error creating webhook'' err), w')))
           else (Rejected (UnknownWebhookError (message err) err), w')))"

section \<open>The base64 encoding\<close>

text \<open>
  The encoding the vendors declare, base64 of RFC 4648 with the standard alphabet and
  padding. It is no part of the adapters; the decoder is compared with it.
\<close>

definition base64_char :: "nat \<Rightarrow> char" where
  "base64_char v =
     (if v < 26 then char_of (65 + v)
      else if v < 52 then char_of (71 + v)
      else if v < 62 then char_of (v - 4)
      else if v = 62 then CHR ''+'' else CHR ''/'')"

fun encode_groups :: "nat list \<Rightarrow> string" where
  "encode_groups (x # y # z # rest) =
     base64_char (x div 4) # base64_char ((x mod 4) * 16 + y div 16)
       # base64_char ((y mod 16) * 4 + z div 64) # base64_char (z mod 64) # encode_groups rest"
| "encode_groups [x, y] =
     [base64_char (x div 4), base64_char ((x mod 4) * 16 + y div 16),
      base64_char ((y mod 16) * 4), CHR ''='']"
| "encode_groups [x] = [base64_char (x div 4), base64_char ((x mod 4) * 16), CHR ''='', CHR ''='']"
| "encode_groups [] = []"

definition base64_encode :: "string \<Rightarrow> string" where
  "base64_encode bytes = encode_groups (map of_char bytes)"

section \<open>Example inputs\<close>

definition example_config :: TypedGitRepoConfig where
  "example_config =
     \<lparr>owner = ''acme'', repo = ''shop'', protocol = ''https'', host = Some ''git.acme.test'',
      username = ''ci'', password = ''secret'', branch = Some ''main''\<rparr>"

definition rate_limit_error :: error where
  \<comment> \<open>a 403 whose message matches the secondary-rate-limit pattern, with \<^verbatim>\<open>Retry-After: 2\<close>\<close>
  "rate_limit_error =
     ResponseError ''You have exceeded a secondary rate limit'' 403
       \<lparr>eres_status = 403, eres_text = Some ''You have exceeded a secondary rate limit'',
        eres_header = [(''Retry-After'', ''2'')]\<rparr>"

definition forbidden_error :: error where
  \<comment> \<open>a 403 that is not a rate-limit message\<close>
  "forbidden_error =
     ResponseError ''Resource not accessible by integration'' 403
       \<lparr>eres_status = 403, eres_text = Some ''Resource not accessible by integration'',
        eres_header = []\<rparr>"

definition hook_exists_error :: error where
  \<comment> \<open>the response error of a vendor that already has the hook\<close>
  "hook_exists_error =
     ResponseError ''Unprocessable Entity'' 422
       \<lparr>eres_status = 422,
        eres_text = Some ''Validation Failed: Hook already exists on this repository'',
        eres_header = []\<rparr>"

definition textless_error :: error where
  \<comment> \<open>a failed response whose body is not text: a gateway's error page served as binary data\<close>
  "textless_error =
     ResponseError ''Bad Gateway'' 502
       \<lparr>eres_status = 502, eres_text = None,
        eres_header = [(''content-type'', ''application/octet-stream'')]\<rparr>"

definition example_options :: CreateWebhook where
  "example_options =
     \<lparr>webhookUrl = Some ''https://hooks.acme.test/push'', jenkinsUrl = None, jenkinsUser = None,
      jenkinsPassword = None, jobName = None\<rparr>"

definition fresh_world :: "(nat \<Rightarrow> 'd request \<Rightarrow> error + 'b Response) \<Rightarrow> ('d, 'b) world" where
  \<comment> \<open>nothing sent, nothing logged, no wait yet; \<^verbatim>\<open>Math.random()\<close> gives one half\<close>
  "fresh_world srv =
     \<lparr>server = srv, sent = [], random = (\<lambda>n. 1 / 2), drawn = 0, sleeps = [], debug = []\<rparr>"

definition reading_world :: "error + 'b Response \<Rightarrow> (unit, 'b) world" where
  \<comment> \<open>a fresh world for an operation that only reads: every request gets the same answer\<close>
  "reading_world a = fresh_world (\<lambda>n r. a)"

definition ok_response :: "'b \<Rightarrow> 'b Response" where
  "ok_response b = \<lparr>res_status = 200, res_text = [], res_header = [], res_body = b\<rparr>"

definition limited_once :: "nat \<Rightarrow> json request \<Rightarrow> error + PullBody Response" where
  \<comment> \<open>the first request meets the secondary rate limit, every later one succeeds\<close>
  "limited_once n r =
     (if n = 0 then Inl rate_limit_error
      else Inr (ok_response \<lparr>body_number = 7, body_head_ref = ''feature'', body_base_ref = ''main''\<rparr>))"

definition github_mixed_tree :: TreeResponse where
  \<comment> \<open>a tree with one file and one directory\<close>
  "github_mixed_tree =
     \<lparr>tr_sha = ''9fb037999f264ba9a7fc6274d15fa3ae2ab98312'',
      tr_url = ''https://api.github.com/repos/acme/shop/git/trees/main'',
      tr_tree =
        [\<lparr>tree_path = ''README.md'', tree_mode = ''100644'', tree_type = ''blob'',
          tree_size = Some 30, tree_sha = ''44b4fc6d56897b048c772eb4087f854f46256132'',
          tree_url = ''https://api.github.com/repos/acme/shop/git/blobs/44b4fc6d''\<rparr>,
         \<lparr>tree_path = ''src'', tree_mode = ''040000'', tree_type = ''tree'',
          tree_size = None, tree_sha = ''f484d249c660418515fb01c2b9662073663c242e'',
          tree_url = ''https://api.github.com/repos/acme/shop/git/trees/f484d249''\<rparr>],
      tr_truncated = Some False\<rparr>"

definition gitlab_mixed_tree :: "GitlabTree list" where
  "gitlab_mixed_tree =
     [\<lparr>gt_type = ''tree'', gt_path = ''files''\<rparr>,
      \<lparr>gt_type = ''blob'', gt_path = ''files/README.md''\<rparr>,
      \<lparr>gt_type = ''blob'', gt_path = ''src/files/a.txt''\<rparr>]"

definition bitbucket_mixed_page :: SrcResponse where
  "bitbucket_mixed_page =
     \<lparr>sr_values =
        [\<lparr>te_path = ''src'', te_type = ''commit_directory'',
          te_href = ''https://api.bitbucket.org/2.0/repositories/acme/shop/src/0a1b/src/''\<rparr>,
         \<lparr>te_path = ''README.md'', te_type = ''commit_file'',
          te_href = ''https://api.bitbucket.org/2.0/repositories/acme/shop/src/0a1b/README.md''\<rparr>]\<rparr>"

definition hello_response :: "FileResponse Response" where
  \<comment> \<open>a response that carries the base64 text of \<^verbatim>\<open>hello\<close>, as body content and as raw text\<close>
  "hello_response =
     \<lparr>res_status = 200, res_text = ''aGVsbG8='', res_header = [],
      res_body = \<lparr>fr_content = ''aGVsbG8='', fr_encoding = base64\<rparr>\<rparr>"

definition example_descriptor :: FileDescriptor where
  "example_descriptor =
     \<lparr>fd_path = ''README.md'', fd_url = Some ''https://git.acme.test/files/README.md''\<rparr>"


section \<open>Properties\<close>

subsection \<open>Worlds\<close>

lemma send_failure:
  "server w (length (sent w)) = (\<lambda>r. Inl err) \<Longrightarrow> send r w = (Inl err, w\<lparr>sent := sent w @ [r]\<rparr>)"
  by (simp add: send_def)

lemma send_success:
  "server w (length (sent w)) = (\<lambda>r. Inr res) \<Longrightarrow> send r w = (Inr res, w\<lparr>sent := sent w @ [r]\<rparr>)"
  by (simp add: send_def)

lemma fresh_world_answers:
  "server (fresh_world (\<lambda>n r. a)) (length (sent (fresh_world (\<lambda>n r. a)))) = (\<lambda>r. a)"
  by (simp add: fresh_world_def)

lemma reading_world_answers:
  "server (reading_world a) (length (sent (reading_world a))) = (\<lambda>r. a)"
  by (simp add: reading_world_def fresh_world_def)

subsection \<open>The retry wrapper\<close>

text \<open>
  Called with an \<^verbatim>\<open>async\<close> function, \<^verbatim>\<open>exec\<close> returns what the function's promise
  settles to, whatever that is: the loop body runs once and \<^verbatim>\<open>catch\<close> is not entered.
\<close>

lemma exec_async: "exec (async body) name w = Some (body w)"
  unfolding exec_def
  by (subst exec_loop.simps) (simp add: async_def split: prod.splits)

lemma github_getPullRequest_failure:
  assumes "server w (length (sent w)) = (\<lambda>r. Inl err)"
  shows "github_getPullRequest v config pullNum w
     = Some (Rejected err,
         w\<lparr>sent := sent w @ [github_request GET config
             (github_getBaseUrl v config @ ''/pulls/'' @ string_of_nat pullNum) None]\<rparr>)"
  using assms
  by (simp add: github_getPullRequest_def exec_async github_get_def send_failure)

lemma github_createPullRequest_failure:
  assumes "server w (length (sent w)) = (\<lambda>r. Inl err)"
  shows "github_createPullRequest v config options w
     = Some (Rejected err,
         w\<lparr>sent := sent w @ [github_request POST config (github_getBaseUrl v config @ ''/pulls'')
             (Some (JObject
                [(''title'', JString (cpr_title options)),
                 (''head'', JString (cpr_sourceBranch options)),
                 (''base'', JString (cpr_targetBranch options)),
                 (''maintainer_can_modify'',
                    (case cpr_maintainer_can_modify options of
                       None \<Rightarrow> JUndefined | Some b \<Rightarrow> JBool b)),
                 (''draft'', JBool (cpr_draft options = Some True))]))]\<rparr>)"
  using assms
  by (simp add: github_createPullRequest_def exec_async github_post_def send_failure)

lemma github_mergePullRequest_failure:
  assumes "server w (length (sent w)) = (\<lambda>r. Inl err)"
  shows "github_mergePullRequest v config options w
     = Some (Rejected err,
         w\<lparr>sent := sent w @ [github_request PUT config
             (github_getBaseUrl v config @ ''/pulls/'' @ string_of_nat (mpr_pullNumber options)
                @ ''/merge'')
             (Some (JObject
                [(''commit_title'', JString (mpr_title options)),
                 (''commit_message'', JString (mpr_message options)),
                 (''merge_method'', JString (mpr_method options))]))]\<rparr>)"
  using assms
  by (simp add: github_mergePullRequest_def exec_async github_put_def send_failure)

lemma github_updatePullRequestBranch_failure:
  assumes "server w (length (sent w)) = (\<lambda>r. Inl err)"
  shows "github_updatePullRequestBranch v config pullNum w
     = Some (Rejected err,
         w\<lparr>sent := sent w @ [github_request PUT config
             (github_getBaseUrl v config @ ''/pulls/'' @ string_of_nat pullNum @ ''/update-branch'')
             (Some (JObject []))]\<rparr>)"
  using assms
  by (simp add: github_updatePullRequestBranch_def exec_async github_put_def send_failure)

text \<open>
  The \<^verbatim>\<open>catch\<close> block on the example error: the first test of the expression matches
  and leaves \<open>lastIndex\<close> at the end of the message, the wait is 2000 ms and the jitter,
  and a function that throws the error (rather than returning a rejected promise) is
  called again after the wait. A second test of the same message, from that
  \<open>lastIndex\<close>, does not match, so the error is thrown on.
\<close>

lemma rate_limit_test_first: "rateLimitRegex_test 0 (message rate_limit_error) = (True, 40)"
  unfolding rate_limit_error_def by code_simp

lemma rate_limit_test_second: "rateLimitRegex_test 40 (message rate_limit_error) = (False, 0)"
  unfolding rate_limit_error_def by code_simp

lemma retry_time_two: "retry_time [(''Retry-After'', ''2'')] (1 / 2) = Some 2500"
  by (simp add: retry_time_def truthy_def to_number_def)

lemma exec_catch_first:
  "exec_catch name 0 rate_limit_error ((fresh_world srv)\<lparr>sent := rs\<rparr>)
     = Retry 40 ((fresh_world srv)\<lparr>sent := rs, drawn := 1, sleeps := [Some 2500],
                   debug := [RateLimitWait name (Some 2500)]\<rparr>)"
proof -
  have "eres_header (err_response rate_limit_error) = [(''Retry-After'', ''2'')]"
    and "isResponseError rate_limit_error" and "status rate_limit_error = 403"
    by (simp_all add: rate_limit_error_def)
  then show ?thesis
    by (simp add: exec_catch_def rate_limit_test_first retry_time_two Math_random_def
        logger_debug_def timer_def fresh_world_def Let_def)
qed

lemma exec_catch_second:
  "exec_catch name 40 rate_limit_error w
     = Rethrow rate_limit_error
         (logger_debug (ErrorCallingApi name rate_limit_error True (Some 403)) w)"
proof -
  have "isResponseError rate_limit_error" and "status rate_limit_error = 403"
    by (simp_all add: rate_limit_error_def)
  then show ?thesis
    by (simp add: exec_catch_def rate_limit_test_second)
qed

lemma thrown_rate_limit_retried:
  "exec (\<lambda>w. if sent w = [] then (Throw rate_limit_error, w\<lparr>sent := [r]\<rparr>)
            else (Normal (Resolved v), w)) name (fresh_world srv)
     = Some (Resolved v,
         (fresh_world srv)\<lparr>sent := [r], drawn := 1, sleeps := [Some 2500],
                            debug := [RateLimitWait name (Some 2500)]\<rparr>)"
proof -
  let ?f = "\<lambda>w. if sent w = [] then (Throw rate_limit_error, w\<lparr>sent := [r]\<rparr>)
            else (Normal (Resolved v), w)"
  have "exec_loop ?f name 0 (fresh_world srv)
      = exec_loop ?f name 40 ((fresh_world srv)\<lparr>sent := [r], drawn := 1, sleeps := [Some 2500],
                   debug := [RateLimitWait name (Some 2500)]\<rparr>)"
    by (subst exec_loop.simps) (simp add: exec_catch_first, simp add: fresh_world_def)
  also have "\<dots> = Some (Resolved v,
         (fresh_world srv)\<lparr>sent := [r], drawn := 1, sleeps := [Some 2500],
                            debug := [RateLimitWait name (Some 2500)]\<rparr>)"
    by (subst exec_loop.simps) (simp add: fresh_world_def)
  finally show ?thesis
    by (simp add: exec_def)
qed

text \<open>
  C1. The claim: a 403 whose message matches the secondary-rate-limit pattern makes a wrapped
  pull-request operation wait and send the request again. In the code the promise of the
  request is returned from inside \<^verbatim>\<open>try\<close> without being awaited, so its rejection never
  reaches \<^verbatim>\<open>catch\<close>: with a server that answers the first request with such a 403 and
  would answer the second one with the pull request, \<^verbatim>\<open>getPullRequest\<close> is rejected with
  the 403 after one request, with no wait and nothing logged.
\<close>

theorem getPullRequest_rate_limit_not_retried:
  "github_getPullRequest Github example_config 7 (fresh_world limited_once)
     = Some (Rejected rate_limit_error,
         (fresh_world limited_once)
           \<lparr>sent := [github_request GET example_config
                       ''https://api.github.com/repos/acme/shop/pulls/7'' None]\<rparr>)
   \<and> sleeps (fresh_world limited_once) = []
   \<and> isResponseError rate_limit_error \<and> status rate_limit_error = 403
   \<and> fst (rateLimitRegex_test 0 (message rate_limit_error))
   \<and> limited_once 1 (github_request GET example_config
         ''https://api.github.com/repos/acme/shop/pulls/7'' None)
     = Inr (ok_response \<lparr>body_number = 7, body_head_ref = ''feature'', body_base_ref = ''main''\<rparr>)"
proof -
  have "server (fresh_world limited_once) (length (sent (fresh_world limited_once)))
      = (\<lambda>r. Inl rate_limit_error)"
    by (simp add: fresh_world_def limited_once_def fun_eq_iff)
  then have "github_getPullRequest Github example_config 7 (fresh_world limited_once)
     = Some (Rejected rate_limit_error,
         (fresh_world limited_once)
           \<lparr>sent := sent (fresh_world limited_once) @ [github_request GET example_config
                       (github_getBaseUrl Github example_config @ ''/pulls/'' @ string_of_nat 7)
                       None]\<rparr>)"
    by (rule github_getPullRequest_failure)
  moreover have "string_of_nat 7 = ''7''"
    by code_simp
  moreover have "isResponseError rate_limit_error" and "status rate_limit_error = 403"
    by (simp_all add: rate_limit_error_def)
  ultimately show ?thesis
    by (simp add: rate_limit_test_first fresh_world_def example_config_def limited_once_def)
qed

text \<open>
  C2. A wrapped pull-request operation whose request fails with an error that is not a 403
  secondary-rate-limit response (a 403 with another message included) is rejected with
  that very error after the one request, without a wait.
\<close>

theorem exec_other_error_reraised:
  assumes "\<not> (isResponseError err \<and> status err = 403 \<and> fst (rateLimitRegex_test 0 (message err)))"
  shows
    "(server w (length (sent w)) = (\<lambda>r. Inl err) \<longrightarrow>
        (\<exists>w'. github_getPullRequest v config pullNum w = Some (Rejected err, w')
           \<and> length (sent w') = Suc (length (sent w)) \<and> sleeps w' = sleeps w)
      \<and> (\<exists>w'. github_createPullRequest v config cpr w = Some (Rejected err, w')
           \<and> length (sent w') = Suc (length (sent w)) \<and> sleeps w' = sleeps w))
     \<and> (server m (length (sent m)) = (\<lambda>r. Inl err) \<longrightarrow>
        (\<exists>m'. github_mergePullRequest v config mpr m = Some (Rejected err, m')
           \<and> length (sent m') = Suc (length (sent m)) \<and> sleeps m' = sleeps m)
      \<and> (\<exists>m'. github_updatePullRequestBranch v config pullNum m = Some (Rejected err, m')
           \<and> length (sent m') = Suc (length (sent m)) \<and> sleeps m' = sleeps m))"
proof (intro conjI impI)
  assume w: "server w (length (sent w)) = (\<lambda>r. Inl err)"
  show "\<exists>w'. github_getPullRequest v config pullNum w = Some (Rejected err, w')
           \<and> length (sent w') = Suc (length (sent w)) \<and> sleeps w' = sleeps w"
    by (simp add: github_getPullRequest_failure [OF w])
  show "\<exists>w'. github_createPullRequest v config cpr w = Some (Rejected err, w')
           \<and> length (sent w') = Suc (length (sent w)) \<and> sleeps w' = sleeps w"
    by (simp add: github_createPullRequest_failure [OF w])
next
  assume m: "server m (length (sent m)) = (\<lambda>r. Inl err)"
  show "\<exists>m'. github_mergePullRequest v config mpr m = Some (Rejected err, m')
           \<and> length (sent m') = Suc (length (sent m)) \<and> sleeps m' = sleeps m"
    by (simp add: github_mergePullRequest_failure [OF m])
  show "\<exists>m'. github_updatePullRequestBranch v config pullNum m = Some (Rejected err, m')
           \<and> length (sent m') = Suc (length (sent m)) \<and> sleeps m' = sleeps m"
    by (simp add: github_updatePullRequestBranch_failure [OF m])
qed

theorem exec_other_error_reraised_witness:
  "\<not> (isResponseError forbidden_error \<and> status forbidden_error = 403
       \<and> fst (rateLimitRegex_test 0 (message forbidden_error)))
   \<and> (\<exists>w'. github_getPullRequest Github example_config 7 (fresh_world (\<lambda>n r. Inl forbidden_error))
          = Some (Rejected forbidden_error, w')
        \<and> length (sent w') = 1 \<and> sleeps w' = [])
   \<and> (\<exists>m'. github_updatePullRequestBranch Github example_config 7
          (fresh_world (\<lambda>n r. Inl forbidden_error)) = Some (Rejected forbidden_error, m')
        \<and> length (sent m') = 1 \<and> sleeps m' = [])"
proof -
  have other: "\<not> (isResponseError forbidden_error \<and> status forbidden_error = 403
       \<and> fst (rateLimitRegex_test 0 (message forbidden_error)))"
    unfolding forbidden_error_def by code_simp
  note t = exec_other_error_reraised [OF other, where v = Github and config = example_config
      and pullNum = 7 and w = "fresh_world (\<lambda>n r. Inl forbidden_error)"
      and m = "fresh_world (\<lambda>n r. Inl forbidden_error)"]
  have fresh: "length (sent (fresh_world srv)) = 0" "sleeps (fresh_world srv) = []"
    for srv :: "nat \<Rightarrow> json request \<Rightarrow> error + 'b Response"
    by (simp_all add: fresh_world_def)
  have pulls: "server (fresh_world (\<lambda>n r. Inl forbidden_error) :: (json, PullBody) world)
      (length (sent (fresh_world (\<lambda>n r. Inl forbidden_error) :: (json, PullBody) world)))
      = (\<lambda>r. Inl forbidden_error)"
    and messages: "server (fresh_world (\<lambda>n r. Inl forbidden_error) :: (json, MessageBody) world)
      (length (sent (fresh_world (\<lambda>n r. Inl forbidden_error) :: (json, MessageBody) world)))
      = (\<lambda>r. Inl forbidden_error)"
    by (rule fresh_world_answers)+
  note get = t [THEN conjunct1, THEN mp, OF pulls, THEN conjunct1]
  note update = t [THEN conjunct2, THEN mp, OF messages, THEN conjunct2]
  from other get update show ?thesis
    by (simp add: fresh)
qed

subsection \<open>Unimplemented operations and refs\<close>

text \<open>
  C5. On the GitLab and the Bitbucket adapter each of the four pull-request operations is
  rejected, for every input, with the error whose message is
  \<^verbatim>\<open>Method not implemented: \<close> followed by the operation's name; it sends nothing and
  never resolves to a value.
\<close>

theorem pull_requests_not_implemented:
  "gitlab_getPullRequest config pullNum w
     = (Rejected (Error (''Method not implemented: '' @ ''getPullRequest'')), w)
   \<and> gitlab_createPullRequest config cpr w
     = (Rejected (Error (''Method not implemented: '' @ ''createPullRequest'')), w)
   \<and> gitlab_mergePullRequest config mpr w
     = (Rejected (Error (''Method not implemented: '' @ ''mergePullRequest'')), w)
   \<and> gitlab_updatePullRequestBranch config pullNum w
     = (Rejected (Error (''Method not implemented: '' @ ''updatePullRequestBranch'')), w)
   \<and> bitbucket_getPullRequest config pullNum w
     = (Rejected (Error (''Method not implemented: '' @ ''getPullRequest'')), w)
   \<and> bitbucket_createPullRequest config cpr w
     = (Rejected (Error (''Method not implemented: '' @ ''createPullRequest'')), w)
   \<and> bitbucket_mergePullRequest config mpr w
     = (Rejected (Error (''Method not implemented: '' @ ''mergePullRequest'')), w)
   \<and> bitbucket_updatePullRequestBranch config pullNum w
     = (Rejected (Error (''Method not implemented: '' @ ''updatePullRequestBranch'')), w)
   \<and> fst (gitlab_getPullRequest config pullNum w) \<noteq> Resolved pr
   \<and> fst (gitlab_createPullRequest config cpr w) \<noteq> Resolved pr
   \<and> fst (gitlab_mergePullRequest config mpr w) \<noteq> Resolved msg
   \<and> fst (gitlab_updatePullRequestBranch config pullNum w) \<noteq> Resolved msg
   \<and> fst (bitbucket_getPullRequest config pullNum w) \<noteq> Resolved pr
   \<and> fst (bitbucket_createPullRequest config cpr w) \<noteq> Resolved pr
   \<and> fst (bitbucket_mergePullRequest config mpr w) \<noteq> Resolved msg
   \<and> fst (bitbucket_updatePullRequestBranch config pullNum w) \<noteq> Resolved msg"
  by (simp add: gitlab_getPullRequest_def gitlab_createPullRequest_def
      gitlab_mergePullRequest_def gitlab_updatePullRequestBranch_def
      bitbucket_getPullRequest_def bitbucket_createPullRequest_def
      bitbucket_mergePullRequest_def bitbucket_updatePullRequestBranch_def)

text \<open>
  C9. With the configured branch \<^verbatim>\<open>main\<close>, \<^verbatim>\<open>getRef\<close> of the GitHub-family and of the
  GitLab adapter is \<^verbatim>\<open>refs/heads/main\<close>, and of the Bitbucket adapter the bare name
  \<^verbatim>\<open>main\<close>.
\<close>

theorem getRef_main:
  "github_getRef (config\<lparr>branch := Some ''main''\<rparr>) = ''refs/heads/main''
   \<and> gitlab_getRef (config\<lparr>branch := Some ''main''\<rparr>) = ''refs/heads/main''
   \<and> bitbucket_getRef (config\<lparr>branch := Some ''main''\<rparr>) = Some ''main''"
  by (simp add: github_getRef_def gitlab_getRef_def bitbucket_getRef_def interp_def)

subsection \<open>Webhook payloads\<close>

lemma urlParts_default: "urlParts_exec ''https://jenkins.local/'' = Some (''https'', ''jenkins.local/'')"
  by code_simp

text \<open>
  C10. Whatever the options, the payload that \<^verbatim>\<open>buildWebhookData\<close> builds is active and
  subscribed to the push event alone on GitHub (\<^verbatim>\<open>events: ["push"]\<close>) and on Bitbucket
  (\<^verbatim>\<open>events: ["repo:push"]\<close>); every payload the GitLab adapter builds has
  \<^verbatim>\<open>push_events: true\<close> and its one other flag is the SSL verification. No payload
  subscribes to pull requests.
\<close>

theorem buildWebhookData_push_only:
  "hook_active (github_buildWebhookData options)
   \<and> hook_events (github_buildWebhookData options) = [GithubEvent_push]
   \<and> map GithubEvent_value (hook_events (github_buildWebhookData options)) = [''push'']
   \<and> GithubEvent_pullRequest \<notin> set (hook_events (github_buildWebhookData options))
   \<and> bb_active (bitbucket_buildWebhookData options)
   \<and> bb_events (bitbucket_buildWebhookData options) = [BitbucketEvent_push]
   \<and> map BitbucketEvent_value (bb_events (bitbucket_buildWebhookData options)) = [''repo:push'']
   \<and> (gitlab_buildWebhookData config options = Inr d \<longrightarrow>
        gl_push_events d = Some True \<and> gl_token d = None)"
  by (auto simp: github_buildWebhookData_def bitbucket_buildWebhookData_def
      gitlab_buildWebhookData_def Let_def split: option.splits)

theorem buildWebhookData_push_only_witness:
  "gitlab_buildWebhookData example_config
     \<lparr>webhookUrl = None, jenkinsUrl = None, jenkinsUser = None, jenkinsPassword = None,
      jobName = Some ''build''\<rparr>
     = Inr \<lparr>gl_id = ''acme%2Fshop'', gl_url = ''https://jenkins.local//project/build'',
            gl_push_events = Some True, gl_enable_ssl_verification = Some True,
            gl_token = None\<rparr>
   \<and> gl_push_events \<lparr>gl_id = ''acme%2Fshop'', gl_url = ''https://jenkins.local//project/build'',
            gl_push_events = Some True, gl_enable_ssl_verification = Some True,
            gl_token = None\<rparr> = Some True
   \<and> hook_events (github_buildWebhookData
        \<lparr>webhookUrl = None, jenkinsUrl = None, jenkinsUser = None, jenkinsPassword = None,
         jobName = Some ''build''\<rparr>) = [GithubEvent_push]"
proof -
  have h: "gitlab_buildWebhookData example_config
     \<lparr>webhookUrl = None, jenkinsUrl = None, jenkinsUser = None, jenkinsPassword = None,
      jobName = Some ''build''\<rparr>
     = Inr \<lparr>gl_id = ''acme%2Fshop'', gl_url = ''https://jenkins.local//project/build'',
            gl_push_events = Some True, gl_enable_ssl_verification = Some True,
            gl_token = None\<rparr>"
    by (simp add: gitlab_buildWebhookData_def urlParts_default example_config_def truthy_def
        interp_def)
  show ?thesis
    using h buildWebhookData_push_only [of
        "\<lparr>webhookUrl = None, jenkinsUrl = None, jenkinsUser = None, jenkinsPassword = None,
          jobName = Some ''build''\<rparr>" example_config]
    by simp
qed

subsection \<open>Webhook creation failures\<close>

lemma github_createWebhook_failure:
  assumes "server w (length (sent w)) = (\<lambda>r. Inl err)"
  shows "fst (github_createWebhook v config options w) =
     Rejected (if isResponseError err
               then (case eres_text (err_response err) of
                       None \<Rightarrow> TypeError match_of_undefined
                     | Some body_text \<Rightarrow>
                         if contains body_text ''Hook already exists''
                         then WebhookAlreadyExists ''Webhook already exists on repository'' err
                         else UnknownWebhookError ''Unknown error creating webhook'' err)
               else UnknownWebhookError (message err) err)"
  using assms
  by (simp add: github_createWebhook_def github_post_def send_failure split: option.splits)

lemma bitbucket_createWebhook_failure:
  assumes "server w (length (sent w)) = (\<lambda>r. Inl err)"
  shows "fst (bitbucket_createWebhook config options w) =
     Rejected (if isResponseError err
               then (case eres_text (err_response err) of
                       None \<Rightarrow> TypeError match_of_undefined
                     | Some body_text \<Rightarrow>
                         if contains body_text ''Hook already exists''
                         then WebhookAlreadyExists ''Webhook already exists on repository'' err
                         else UnknownWebhookError ''Unknown error creating webhook'' err)
               else UnknownWebhookError (message err) err)"
  using assms by (simp add: bitbucket_createWebhook_def send_failure split: option.splits)

lemma gitlab_createWebhook_failure:
  assumes "server w (length (sent w)) = (\<lambda>r. Inl err)"
    and "gitlab_buildWebhookData config options = Inr d"
  shows "fst (gitlab_createWebhook config options w) =
     Rejected (if isResponseError err
               then (case eres_text (err_response err) of
                       None \<Rightarrow> TypeError match_of_undefined
                     | Some body_text \<Rightarrow>
                         if contains body_text ''Hook already exists''
                         then WebhookAlreadyExists ''Webhook already exists on repository'' err
                         else UnknownWebhookError ''Unknown error creating webhook'' err)
               else UnknownWebhookError (message err) err)"
  using assms by (simp add: gitlab_createWebhook_def send_failure split: option.splits)

lemma gitlab_createWebhook_no_payload:
  assumes "gitlab_buildWebhookData config options = Inl err"
  shows "gitlab_createWebhook config options w = (Rejected (UnknownWebhookError (message err) err), w)"
proof -
  from assms have "\<not> isResponseError err"
    by (auto simp: gitlab_buildWebhookData_def Let_def split: option.splits)
  with assms show ?thesis
    by (simp add: gitlab_createWebhook_def)
qed

lemma gitlab_example_payload:
  "gitlab_buildWebhookData example_config example_options
     = Inr \<lparr>gl_id = ''acme%2Fshop'', gl_url = ''https://hooks.acme.test/push'',
            gl_push_events = Some True, gl_enable_ssl_verification = Some True,
            gl_token = None\<rparr>"
  by (simp add: gitlab_buildWebhookData_def urlParts_default example_config_def
      example_options_def truthy_def)

text \<open>
  A failed response whose text is there is classified as the adapters mean it: on the
  example of a vendor that has the hook already, all three reject with
  \<^verbatim>\<open>WebhookAlreadyExists\<close> carrying the response error.
\<close>

lemma createWebhook_hook_exists:
  "fst (github_createWebhook Github example_config example_options
          (fresh_world (\<lambda>n r. Inl hook_exists_error)))
     = Rejected (WebhookAlreadyExists ''Webhook already exists on repository'' hook_exists_error)
   \<and> fst (bitbucket_createWebhook example_config example_options
          (fresh_world (\<lambda>n r. Inl hook_exists_error)))
     = Rejected (WebhookAlreadyExists ''Webhook already exists on repository'' hook_exists_error)
   \<and> fst (gitlab_createWebhook example_config example_options
          (fresh_world (\<lambda>n r. Inl hook_exists_error)))
     = Rejected (WebhookAlreadyExists ''Webhook already exists on repository'' hook_exists_error)"
proof -
  have found: "isResponseError hook_exists_error"
    "eres_text (err_response hook_exists_error)
       = Some ''Validation Failed: Hook already exists on this repository''"
    "contains ''Validation Failed: Hook already exists on this repository'' ''Hook already exists''"
    by (simp_all add: hook_exists_error_def)
  show ?thesis
    by (simp add: github_createWebhook_failure [OF fresh_world_answers]
        bitbucket_createWebhook_failure [OF fresh_world_answers]
        gitlab_createWebhook_failure [OF fresh_world_answers gitlab_example_payload]
        found del: contains.simps)
qed

text \<open>
  C3. The claim: whenever \<^verbatim>\<open>createWebhook\<close> fails, the error it raises is
  \<^verbatim>\<open>WebhookAlreadyExists\<close> or an \<^verbatim>\<open>UnknownWebhookError\<close> that carries the original error.
  In the code the \<^verbatim>\<open>catch\<close> block of each adapter reads \<^verbatim>\<open>err.response.text.match\<close>
  unguarded: when the request fails with a response that has no text, the block itself
  throws, and \<^verbatim>\<open>createWebhook\<close> is rejected with a bare \<^verbatim>\<open>TypeError\<close> that is neither of
  the two and carries no cause.
\<close>

theorem createWebhook_textless_failure_unclassified:
  "isResponseError textless_error
   \<and> eres_text (err_response textless_error) = None
   \<and> fst (github_createWebhook Github example_config example_options
          (fresh_world (\<lambda>n r. Inl textless_error)))
     = Rejected (TypeError match_of_undefined)
   \<and> fst (gitlab_createWebhook example_config example_options
          (fresh_world (\<lambda>n r. Inl textless_error)))
     = Rejected (TypeError match_of_undefined)
   \<and> fst (bitbucket_createWebhook example_config example_options
          (fresh_world (\<lambda>n r. Inl textless_error)))
     = Rejected (TypeError match_of_undefined)
   \<and> TypeError match_of_undefined
     \<noteq> UnknownWebhookError ''Unknown error creating webhook'' textless_error
   \<and> TypeError match_of_undefined
     \<noteq> WebhookAlreadyExists ''Webhook already exists on repository'' textless_error"
proof -
  have textless: "isResponseError textless_error"
    "eres_text (err_response textless_error) = None"
    by (simp_all add: textless_error_def)
  show ?thesis
    by (simp add: github_createWebhook_failure [OF fresh_world_answers]
        bitbucket_createWebhook_failure [OF fresh_world_answers]
        gitlab_createWebhook_failure [OF fresh_world_answers gitlab_example_payload]
        textless)
qed

subsection \<open>Listing files\<close>

lemma github_listFiles_success:
  assumes "server w (length (sent w)) = (\<lambda>r. Inr res)"
  shows "fst (github_listFiles v config w)
     = Resolved (filter (\<lambda>t. tree_type t = ''blob'') (tr_tree (res_body res)))"
  using assms by (simp add: github_listFiles_def github_get_def send_success)

lemma gitlab_listFiles_success:
  assumes "server w (length (sent w)) = (\<lambda>r. Inr res)"
  shows "fst (gitlab_listFiles config w)
     = Resolved (map (\<lambda>t. \<lparr>fd_path = replace_first (gt_path t) ''files/'' [],
                            fd_url = Some (gitlab_getBaseUrl config @ ''/repository/'' @ gt_path t)\<rparr>)
                  (filter (\<lambda>t. gt_type t = ''blob'') (res_body res)))"
  using assms by (simp add: gitlab_listFiles_def send_success)

lemma bitbucket_listFiles_success:
  assumes "server w (length (sent w)) = (\<lambda>r. Inr res)"
  shows "fst (bitbucket_listFiles config w)
     = Resolved (map (\<lambda>s. \<lparr>fd_path = te_path s, fd_url = Some (te_href s)\<rparr>)
                  (filter (\<lambda>s. te_type s = ''commit_file'') (sr_values (res_body res))))"
  using assms by (simp add: bitbucket_listFiles_def send_success)

text \<open>
  C7. When the server answers the tree request with a response, \<^verbatim>\<open>listFiles\<close> resolves
  to the file-type entries of that response and to nothing else: on GitHub to the
  entries of type \<^verbatim>\<open>blob\<close> themselves, on GitLab and Bitbucket to one descriptor for each
  entry of type \<^verbatim>\<open>blob\<close> (\<^verbatim>\<open>commit_file\<close> on Bitbucket), in the order of the response.
  An entry of another type, a directory among them, gives no element of the result.
\<close>

theorem listFiles_only_files:
  assumes "server g (length (sent g)) = (\<lambda>r. Inr gres)"
    and "server l (length (sent l)) = (\<lambda>r. Inr lres)"
    and "server b (length (sent b)) = (\<lambda>r. Inr bres)"
  shows
    "(\<exists>fs. fst (github_listFiles v config g) = Resolved fs
        \<and> set fs = {t \<in> set (tr_tree (res_body gres)). tree_type t = ''blob''}
        \<and> length fs = length (filter (\<lambda>t. tree_type t = ''blob'') (tr_tree (res_body gres)))
        \<and> (\<forall>t \<in> set fs. tree_type t \<noteq> ''tree''))
     \<and> (\<exists>ds. fst (gitlab_listFiles config l) = Resolved ds
        \<and> length ds = length (filter (\<lambda>t. gt_type t = ''blob'') (res_body lres))
        \<and> (\<forall>d \<in> set ds. \<exists>t \<in> set (res_body lres). gt_type t = ''blob'' \<and> gt_type t \<noteq> ''tree''
              \<and> fd_url d = Some (gitlab_getBaseUrl config @ ''/repository/'' @ gt_path t)))
     \<and> (\<exists>ds. fst (bitbucket_listFiles config b) = Resolved ds
        \<and> length ds = length (filter (\<lambda>s. te_type s = ''commit_file'') (sr_values (res_body bres)))
        \<and> (\<forall>d \<in> set ds. \<exists>s \<in> set (sr_values (res_body bres)). te_type s = ''commit_file''
              \<and> te_type s \<noteq> ''commit_directory''
              \<and> fd_path d = te_path s \<and> fd_url d = Some (te_href s)))"
proof (intro conjI)
  show "\<exists>fs. fst (github_listFiles v config g) = Resolved fs
        \<and> set fs = {t \<in> set (tr_tree (res_body gres)). tree_type t = ''blob''}
        \<and> length fs = length (filter (\<lambda>t. tree_type t = ''blob'') (tr_tree (res_body gres)))
        \<and> (\<forall>t \<in> set fs. tree_type t \<noteq> ''tree'')"
    by (auto simp: github_listFiles_success [OF assms(1)])
next
  show "\<exists>ds. fst (gitlab_listFiles config l) = Resolved ds
        \<and> length ds = length (filter (\<lambda>t. gt_type t = ''blob'') (res_body lres))
        \<and> (\<forall>d \<in> set ds. \<exists>t \<in> set (res_body lres). gt_type t = ''blob'' \<and> gt_type t \<noteq> ''tree''
              \<and> fd_url d = Some (gitlab_getBaseUrl config @ ''/repository/'' @ gt_path t))"
    by (auto simp: gitlab_listFiles_success [OF assms(2)])
next
  show "\<exists>ds. fst (bitbucket_listFiles config b) = Resolved ds
        \<and> length ds = length (filter (\<lambda>s. te_type s = ''commit_file'') (sr_values (res_body bres)))
        \<and> (\<forall>d \<in> set ds. \<exists>s \<in> set (sr_values (res_body bres)). te_type s = ''commit_file''
              \<and> te_type s \<noteq> ''commit_directory''
              \<and> fd_path d = te_path s \<and> fd_url d = Some (te_href s))"
    by (auto simp: bitbucket_listFiles_success [OF assms(3)])
qed

theorem listFiles_only_files_witness:
  "fst (github_listFiles Github example_config
          (reading_world (Inr (ok_response github_mixed_tree))))
     = Resolved [\<lparr>tree_path = ''README.md'', tree_mode = ''100644'', tree_type = ''blob'',
          tree_size = Some 30, tree_sha = ''44b4fc6d56897b048c772eb4087f854f46256132'',
          tree_url = ''https://api.github.com/repos/acme/shop/git/blobs/44b4fc6d''\<rparr>]
   \<and> fst (gitlab_listFiles example_config
          (reading_world (Inr (ok_response gitlab_mixed_tree))))
     = Resolved
         [\<lparr>fd_path = ''README.md'',
           fd_url = Some ''https://git.acme.test/api/v4/projects/acme%2Fshop/repository/files/README.md''\<rparr>,
          \<lparr>fd_path = ''src/a.txt'',
           fd_url = Some ''https://git.acme.test/api/v4/projects/acme%2Fshop/repository/src/files/a.txt''\<rparr>]
   \<and> fst (bitbucket_listFiles example_config
          (reading_world (Inr (ok_response bitbucket_mixed_page))))
     = Resolved
         [\<lparr>fd_path = ''README.md'',
           fd_url = Some ''https://api.bitbucket.org/2.0/repositories/acme/shop/src/0a1b/README.md''\<rparr>]"
proof -
  note t = listFiles_only_files [OF
      reading_world_answers [of "Inr (ok_response github_mixed_tree)"]
      reading_world_answers [of "Inr (ok_response gitlab_mixed_tree)"]
      reading_world_answers [of "Inr (ok_response bitbucket_mixed_page)"],
      where v = Github and config = example_config]
  have "replace_first ''files/README.md'' ''files/'' [] = ''README.md''"
    and "replace_first ''src/files/a.txt'' ''files/'' [] = ''src/a.txt''"
    by code_simp+
  then show ?thesis
    using t
    by (simp add: github_listFiles_def github_get_def gitlab_listFiles_def
        bitbucket_listFiles_def send_def reading_world_def fresh_world_def ok_response_def
        github_mixed_tree_def gitlab_mixed_tree_def bitbucket_mixed_page_def
        gitlab_getBaseUrl_def example_config_def interp_def)
qed

subsection \<open>File contents\<close>

lemma base64_decode_hello: "base64_decode ''aGVsbG8='' = ''hello''"
  by code_simp

lemma of_char_base64_char:
  "v < 64 \<Longrightarrow> (of_char (base64_char v) :: nat) =
     (if v < 26 then 65 + v else if v < 52 then 71 + v else if v < 62 then v - 4
      else if v = 62 then 43 else 47)"
  by (simp add: base64_char_def)

lemma unbase64_base64_char: "v < 64 \<Longrightarrow> unbase64 (base64_char v) = Some v"
proof -
  assume v: "v < 64"
  have eq: "c = d \<longleftrightarrow> (of_char c :: nat) = of_char d" for c d :: char
    by auto
  from v show ?thesis
    unfolding unbase64_def Let_def eq [of _ "CHR ''+''"] eq [of _ "CHR ''-''"]
      eq [of _ "CHR ''/''"] eq [of _ "CHR ''_''"] of_char_base64_char [OF v]
    by auto
qed

lemma base64_char_not_pad: "v < 64 \<Longrightarrow> base64_char v \<noteq> CHR ''=''"
proof
  assume v: "v < 64" and "base64_char v = CHR ''=''"
  then have "(of_char (base64_char v) :: nat) = of_char CHR ''=''"
    by simp
  with v show False
    unfolding of_char_base64_char [OF v] by (auto split: if_splits)
qed

lemma sextets_base64_char:
  "v < 64 \<Longrightarrow> sextets (base64_char v # cs) = v # sextets cs"
  by (simp add: unbase64_base64_char base64_char_not_pad)

lemma sextets_pad: "sextets (CHR ''='' # cs) = []"
  by simp

lemma decode_encode_groups:
  "\<forall>x \<in> set xs. x < 256 \<Longrightarrow> decode_groups (sextets (encode_groups xs)) = xs"
proof (induction xs rule: encode_groups.induct)
  case (1 x y z rest)
  then have x: "x < 256" and y: "y < 256" and z: "z < 256"
    and rest: "\<forall>x \<in> set rest. x < 256"
    by simp_all
  have bounds: "x div 4 < 64" "(x mod 4) * 16 + y div 16 < 64"
    "(y mod 16) * 4 + z div 64 < 64" "z mod 64 < 64"
    using x y z by simp_all
  have a: "(x div 4) * 4 + ((x mod 4) * 16 + y div 16) div 16 = x"
    using y by simp
  have b: "(((x mod 4) * 16 + y div 16) mod 16) * 16 + ((y mod 16) * 4 + z div 64) div 4 = y"
    using y z by simp
  have c: "(((y mod 16) * 4 + z div 64) mod 4) * 64 + z mod 64 = z"
    using z by simp
  show ?case
    using "1.IH" [OF rest] a b c by (simp add: sextets_base64_char bounds del: sextets.simps)
next
  case (2 x y)
  then have x: "x < 256" and y: "y < 256"
    by simp_all
  have bounds: "x div 4 < 64" "(x mod 4) * 16 + y div 16 < 64" "(y mod 16) * 4 < 64"
    using x y by simp_all
  have a: "(x div 4) * 4 + ((x mod 4) * 16 + y div 16) div 16 = x"
    using y by simp
  have b: "(((x mod 4) * 16 + y div 16) mod 16) * 16 + ((y mod 16) * 4) div 4 = y"
    using y by simp
  show ?case
    using a b by (simp add: sextets_base64_char sextets_pad bounds del: sextets.simps)
next
  case (3 x)
  then have x: "x < 256"
    by simp
  have bounds: "x div 4 < 64" "(x mod 4) * 16 < 64"
    using x by simp_all
  have a: "(x div 4) * 4 + ((x mod 4) * 16) div 16 = x"
    by simp
  show ?case
    using a by (simp add: sextets_base64_char sextets_pad bounds del: sextets.simps)
next
  case 4
  show ?case by simp
qed

lemma base64_decode_encode: "base64_decode (base64_encode bytes) = bytes"
proof -
  have "\<forall>x \<in> set (map of_char bytes :: nat list). x < 256"
    by simp
  then have "decode_groups (sextets (encode_groups (map of_char bytes))) = map of_char bytes"
    by (rule decode_encode_groups)
  then show ?thesis
    by (simp add: base64_decode_def base64_encode_def comp_def)
qed

lemma base64_encode_hello: "base64_encode ''hello'' = ''aGVsbG8=''"
  by code_simp

lemma github_getFileContents_success:
  assumes "server w (length (sent w)) = (\<lambda>r. Inr res)"
  shows "fst (github_getFileContents v config fd w)
     = Resolved (Buffer (base64_decode (fr_content (res_body res))))"
  using assms
  by (cases "fr_encoding (res_body res)")
    (simp add: github_getFileContents_def github_get_def send_success)

lemma gitlab_getFileContents_success:
  assumes "server w (length (sent w)) = (\<lambda>r. Inr res)"
  shows "fst (gitlab_getFileContents config fd w)
     = Resolved (Buffer (base64_decode (fr_content (res_body res))))"
  using assms
  by (cases "fr_encoding (res_body res)") (simp add: gitlab_getFileContents_def send_success)

lemma bitbucket_getFileContents_success:
  assumes "server w (length (sent w)) = (\<lambda>r. Inr res)"
  shows "fst (bitbucket_getFileContents config fd w) = Resolved (Text (res_text res))"
  using assms by (simp add: bitbucket_getFileContents_def send_success)

text \<open>
  C4, as claimed for every adapter, fails on Bitbucket: its \<^verbatim>\<open>getFileContents\<close> returns
  the text of the response as it is, so a response that carries \<^verbatim>\<open>aGVsbG8=\<close> yields
  \<^verbatim>\<open>aGVsbG8=\<close> and not \<^verbatim>\<open>hello\<close>.
\<close>

theorem bitbucket_getFileContents_not_decoded:
  "fst (bitbucket_getFileContents example_config example_descriptor
          (reading_world (Inr hello_response))) = Resolved (Text ''aGVsbG8='')
   \<and> fst (bitbucket_getFileContents example_config example_descriptor
          (reading_world (Inr hello_response))) \<noteq> Resolved (Text ''hello'')
   \<and> fst (bitbucket_getFileContents example_config example_descriptor
          (reading_world (Inr hello_response))) \<noteq> Resolved (Buffer ''hello'')"
  by (simp add: bitbucket_getFileContents_def send_def reading_world_def fresh_world_def hello_response_def)

text \<open>
  C4, amended. When the server answers with a response, \<^verbatim>\<open>getFileContents\<close> of the
  GitHub-family and of the GitLab adapter resolves to a buffer holding the base64 decoding
  of the response's content: the content \<^verbatim>\<open>aGVsbG8=\<close> gives the bytes of \<^verbatim>\<open>hello\<close>, and
  the base64 encoding of any bytes gives those bytes back. The Bitbucket adapter resolves
  to the text of the response, unchanged.
\<close>

theorem getFileContents_decoding:
  assumes "server g (length (sent g)) = (\<lambda>r. Inr gres)"
    and "server l (length (sent l)) = (\<lambda>r. Inr lres)"
    and "server b (length (sent b)) = (\<lambda>r. Inr bres)"
  shows
    "fst (github_getFileContents v config fd g)
       = Resolved (Buffer (base64_decode (fr_content (res_body gres))))
     \<and> (fr_content (res_body gres) = ''aGVsbG8='' \<longrightarrow>
          fst (github_getFileContents v config fd g) = Resolved (Buffer ''hello''))
     \<and> (fr_content (res_body gres) = base64_encode bytes \<longrightarrow>
          fst (github_getFileContents v config fd g) = Resolved (Buffer bytes))
     \<and> fst (gitlab_getFileContents config fd l)
       = Resolved (Buffer (base64_decode (fr_content (res_body lres))))
     \<and> (fr_content (res_body lres) = ''aGVsbG8='' \<longrightarrow>
          fst (gitlab_getFileContents config fd l) = Resolved (Buffer ''hello''))
     \<and> (fr_content (res_body lres) = base64_encode bytes \<longrightarrow>
          fst (gitlab_getFileContents config fd l) = Resolved (Buffer bytes))
     \<and> fst (bitbucket_getFileContents config fd b) = Resolved (Text (res_text bres))"
  by (simp add: github_getFileContents_success [OF assms(1)]
      gitlab_getFileContents_success [OF assms(2)]
      bitbucket_getFileContents_success [OF assms(3)] base64_decode_hello
      base64_decode_encode)

theorem getFileContents_decoding_witness:
  "fst (github_getFileContents GithubEnterprise example_config example_descriptor
          (reading_world (Inr hello_response))) = Resolved (Buffer ''hello'')
   \<and> fst (gitlab_getFileContents example_config example_descriptor
          (reading_world (Inr hello_response))) = Resolved (Buffer ''hello'')
   \<and> fst (bitbucket_getFileContents example_config example_descriptor
          (reading_world (Inr hello_response))) = Resolved (Text ''aGVsbG8='')"
proof -
  have content: "fr_content (res_body hello_response) = ''aGVsbG8=''"
    and raw: "res_text hello_response = ''aGVsbG8=''"
    by (simp_all add: hello_response_def)
  note t = getFileContents_decoding [OF
      reading_world_answers [of "Inr hello_response"]
      reading_world_answers [of "Inr hello_response"]
      reading_world_answers [of "Inr hello_response"],
      where v = GithubEnterprise and config = example_config and fd = example_descriptor
      and bytes = "''hello''"]
  have encoded: "fr_content (res_body hello_response) = base64_encode ''hello''"
    by (simp only: content base64_encode_hello)
  from t encoded raw show ?thesis
    by (simp add: base64_decode_encode)
qed

subsection \<open>Paths of the GitLab listing\<close>








subsection \<open>The URL of the hook\<close>







end
